theory Spec2Isabelle
  imports Main
begin

section \<open>Python values\<close>

text \<open>
  The client in \<^verbatim>\<open>sirocco_api.py\<close> passes dynamically typed values around: the
  caller's arguments and the decoded JSON body of a response. They are modelled by one
  datatype. A dictionary is an association list in insertion order. Strings are lists of
  code points below 256. Floating-point numbers are outside the model, and Python's
  integers are unbounded (the interpreter's optional limit on the length of integer
  text is taken to be switched off).
\<close>

datatype pyval =
    PNone
  | PBool bool
  | PInt int
  | PStr string
  | PList "pyval list"
  | PDict "(pyval \<times> pyval) list"

datatype exn_kind = ValueError | TypeError | KeyError

datatype py_exn = Exn (kind: exn_kind) (message: string)

text \<open>A call either returns a value or leaves through an uncaught exception.\<close>

datatype outcome = Returned pyval | Raised py_exn

subsection \<open>Truthiness\<close>

fun truthy :: "pyval \<Rightarrow> bool" where
  "truthy PNone = False"
| "truthy (PBool b) = b"
| "truthy (PInt n) = (n \<noteq> 0)"
| "truthy (PStr s) = (s \<noteq> [])"
| "truthy (PList xs) = (xs \<noteq> [])"
| "truthy (PDict kvs) = (kvs \<noteq> [])"

fun type_name :: "pyval \<Rightarrow> string" where
  "type_name PNone = ''NoneType''"
| "type_name (PBool b) = ''bool''"
| "type_name (PInt n) = ''int''"
| "type_name (PStr s) = ''str''"
| "type_name (PList xs) = ''list''"
| "type_name (PDict kvs) = ''dict''"

definition quoted :: "string \<Rightarrow> string" where
  "quoted s = CHR 0x27 # s @ [CHR 0x27]"

subsection \<open>Integers and their text\<close>

definition digit_char :: "nat \<Rightarrow> char" where
  "digit_char d = ''0123456789'' ! d"

fun str_of_nat :: "nat \<Rightarrow> string" where
  "str_of_nat n =
     (if n < 10 then [digit_char n] else str_of_nat (n div 10) @ [digit_char (n mod 10)])"

declare str_of_nat.simps [simp del]

definition str_of_int :: "int \<Rightarrow> string" where
  "str_of_int i = (if i < 0 then CHR ''-'' # str_of_nat (nat (- i)) else str_of_nat (nat i))"

text \<open>
  \<^verbatim>\<open>int(s)\<close> on a string: surrounding whitespace is dropped, one sign is allowed, and
  the rest is a non-empty run of decimal digits in which single underscores may separate
  digits. Leading zeros are accepted.
\<close>

definition py_isspace :: "char \<Rightarrow> bool" where
  "py_isspace c =
     ((of_char c :: nat) \<in> {9, 10, 11, 12, 13, 28, 29, 30, 31, 32, 133, 160})"

definition is_digit :: "char \<Rightarrow> bool" where
  "is_digit c = (48 \<le> (of_char c :: nat) \<and> (of_char c :: nat) \<le> 57)"

definition digit_value :: "char \<Rightarrow> int" where
  "digit_value c = int (of_char c) - 48"

fun digits_rest :: "int \<Rightarrow> string \<Rightarrow> int option" where
  "digits_rest acc [] = Some acc"
| "digits_rest acc [c] = (if is_digit c then Some (10 * acc + digit_value c) else None)"
| "digits_rest acc (c # d # cs) =
     (if is_digit c then digits_rest (10 * acc + digit_value c) (d # cs)
      else if c = CHR ''_'' \<and> is_digit d then digits_rest acc (d # cs)
      else None)"

definition parse_digits :: "string \<Rightarrow> int option" where
  "parse_digits s =
     (case s of
        [] \<Rightarrow> None
      | c # cs \<Rightarrow> if is_digit c then digits_rest (digit_value c) cs else None)"

definition py_strip :: "string \<Rightarrow> string" where
  "py_strip s = rev (dropWhile py_isspace (rev (dropWhile py_isspace s)))"

definition int_of_str :: "string \<Rightarrow> int option" where
  "int_of_str s =
     (case py_strip s of
        [] \<Rightarrow> None
      | c # cs \<Rightarrow>
          if c = CHR ''-'' then map_option uminus (parse_digits cs)
          else if c = CHR ''+'' then parse_digits cs
          else parse_digits (c # cs))"

subsection \<open>Text of a value\<close>

definition py_isprintable :: "char \<Rightarrow> bool" where
  "py_isprintable c =
     (let n = (of_char c :: nat) in (32 \<le> n \<and> n \<le> 126) \<or> (161 \<le> n \<and> n \<noteq> 173))"

definition hex_char :: "nat \<Rightarrow> char" where
  "hex_char d = ''0123456789abcdef'' ! d"

definition repr_char :: "char \<Rightarrow> char \<Rightarrow> string" where
  "repr_char q c =
     (if c = q \<or> c = CHR 0x5C then [CHR 0x5C, c]
      else if c = CHR 0x09 then [CHR 0x5C, CHR ''t'']
      else if c = CHR 0x0A then [CHR 0x5C, CHR ''n'']
      else if c = CHR 0x0D then [CHR 0x5C, CHR ''r'']
      else if py_isprintable c then [c]
      else [CHR 0x5C, CHR ''x'', hex_char (of_char c div 16), hex_char (of_char c mod 16)])"

definition repr_str :: "string \<Rightarrow> string" where
  "repr_str s =
     (let q = (if CHR 0x27 \<in> set s \<and> CHR 0x22 \<notin> set s then CHR 0x22 else CHR 0x27)
      in q # concat (map (repr_char q) s) @ [q])"

fun join :: "string \<Rightarrow> string list \<Rightarrow> string" where
  "join sep [] = []"
| "join sep [x] = x"
| "join sep (x # y # ys) = x @ sep @ join sep (y # ys)"

fun py_repr :: "pyval \<Rightarrow> string" where
  "py_repr PNone = ''None''"
| "py_repr (PBool b) = (if b then ''True'' else ''False'')"
| "py_repr (PInt n) = str_of_int n"
| "py_repr (PStr s) = repr_str s"
| "py_repr (PList xs) = ''['' @ join '', '' (map py_repr xs) @ '']''"
| "py_repr (PDict kvs) =
     ''{'' @ join '', '' (map (\<lambda>(k, v). py_repr k @ '': '' @ py_repr v) kvs) @ ''}''"

text \<open>What an f-string writes for \<^verbatim>\<open>{v}\<close>: a string as it is, anything else by its repr.\<close>

fun py_str :: "pyval \<Rightarrow> string" where
  "py_str (PStr s) = s"
| "py_str v = py_repr v"

subsection \<open>The builtin int()\<close>

fun py_int :: "pyval \<Rightarrow> py_exn + int" where
  "py_int (PInt n) = Inr n"
| "py_int (PBool b) = Inr (if b then 1 else 0)"
| "py_int (PStr s) =
     (case int_of_str s of
        Some n \<Rightarrow> Inr n
      | None \<Rightarrow> Inl (Exn ValueError (''invalid literal for int() with base 10: '' @ repr_str s)))"
| "py_int v =
     Inl (Exn TypeError
       (''int() argument must be a string, a bytes-like object or a real number, not ''
          @ quoted (type_name v)))"

subsection \<open>Subscripts, iteration and dictionary stores\<close>

text \<open>
  Keys of a dictionary are compared with \<^verbatim>\<open>==\<close>, under which \<^verbatim>\<open>True\<close> is \<^verbatim>\<open>1\<close> and
  \<^verbatim>\<open>False\<close> is \<^verbatim>\<open>0\<close>. A store under a key that is already present keeps the old key
  and its position.
\<close>

fun norm_key :: "pyval \<Rightarrow> pyval" where
  "norm_key (PBool b) = PInt (if b then 1 else 0)"
| "norm_key v = v"

definition key_eq :: "pyval \<Rightarrow> pyval \<Rightarrow> bool" where
  "key_eq a b = (norm_key a = norm_key b)"

fun hashable :: "pyval \<Rightarrow> bool" where
  "hashable (PList xs) = False"
| "hashable (PDict kvs) = False"
| "hashable v = True"

fun dict_get :: "(pyval \<times> pyval) list \<Rightarrow> pyval \<Rightarrow> pyval option" where
  "dict_get [] k = None"
| "dict_get ((k', v) # kvs) k = (if key_eq k' k then Some v else dict_get kvs k)"

fun dict_set :: "pyval \<Rightarrow> pyval \<Rightarrow> (pyval \<times> pyval) list \<Rightarrow> (pyval \<times> pyval) list" where
  "dict_set k v [] = [(k, v)]"
| "dict_set k v ((k', v') # kvs) =
     (if key_eq k' k then (k', v) # kvs else (k', v') # dict_set k v kvs)"

text \<open>\<^verbatim>\<open>obj[key]\<close> with a string key, as the projects operation uses it.\<close>

fun subscript :: "pyval \<Rightarrow> string \<Rightarrow> py_exn + pyval" where
  "subscript (PDict kvs) key =
     (case dict_get kvs (PStr key) of
        Some v \<Rightarrow> Inr v
      | None \<Rightarrow> Inl (Exn KeyError (repr_str key)))"
| "subscript (PList xs) key =
     Inl (Exn TypeError ''list indices must be integers or slices, not str'')"
| "subscript (PStr s) key =
     Inl (Exn TypeError (''string indices must be integers, not '' @ quoted ''str''))"
| "subscript v key =
     Inl (Exn TypeError (quoted (type_name v) @ '' object is not subscriptable''))"

fun py_iter :: "pyval \<Rightarrow> py_exn + pyval list" where
  "py_iter (PList xs) = Inr xs"
| "py_iter (PDict kvs) = Inr (map fst kvs)"
| "py_iter (PStr s) = Inr (map (\<lambda>c. PStr [c]) s)"
| "py_iter v = Inl (Exn TypeError (quoted (type_name v) @ '' object is not iterable''))"

section \<open>The outside world\<close>

text \<open>
  Three things come from outside the module: the environment variable
  \<^verbatim>\<open>SIROCCO_API\<close>, the answer of \<^verbatim>\<open>requests.get\<close>, and whether
  \<^verbatim>\<open>pd.to_datetime(s, format="%Y-%m-%d %H:%M:%S")\<close> accepts a string. They are the
  fields of \<open>world\<close>. An answer is either an exception raised by the transport, with its
  text, or a response with its status code and the result of \<^verbatim>\<open>response.json()\<close>, which
  is the decoded body or the text of the decoder's exception.
\<close>

record request =
  url :: string
  headers :: "(string \<times> string) list"

datatype http_result =
    Failed string
  | Response int "string + pyval"

record world =
  sirocco_api_env :: "string option"
  http_get :: "request \<Rightarrow> http_result"
  date_ok :: "string \<Rightarrow> bool"

definition API_TOKEN :: "world \<Rightarrow> string" where
  "API_TOKEN w =
     (case sirocco_api_env w of
        Some t \<Rightarrow> if t \<noteq> [] then t else ''your_personal_token_here''
      | None \<Rightarrow> ''your_personal_token_here'')"

definition API_VERSION :: string where
  "API_VERSION = ''v1.1''"

definition auth_headers :: "world \<Rightarrow> (string \<times> string) list" where
  "auth_headers w = [(''Authorization'', API_TOKEN w)]"

text \<open>
  \<^verbatim>\<open>pd.to_datetime\<close> returns at once for \<^verbatim>\<open>None\<close>; for a string it raises ValueError
  exactly when the string is not accepted under the format.
\<close>

fun to_datetime_raises :: "world \<Rightarrow> string option \<Rightarrow> bool" where
  "to_datetime_raises w None = False"
| "to_datetime_raises w (Some s) = (\<not> date_ok w s)"

section \<open>The operations\<close>

text \<open>
  Every operation returns its outcome together with the list of requests it sent, so
  that "no request is sent" is the statement that this list is empty.
\<close>

definition exception_string :: "string \<Rightarrow> pyval" where
  "exception_string msg = PStr (''Error: An exception occurred - '' @ msg)"

definition status_string :: "int \<Rightarrow> pyval" where
  "status_string code = PStr (''Error: Received response with status code '' @ str_of_int code)"

text \<open>The \<^verbatim>\<open>try\<close> block shared by all operations but \<^verbatim>\<open>get_my_projects\<close>.\<close>

definition respond :: "http_result \<Rightarrow> outcome" where
  "respond r =
     (case r of
        Failed msg \<Rightarrow> Returned (exception_string msg)
      | Response code body \<Rightarrow>
          if code = 200 then
            (case body of
               Inr v \<Rightarrow> Returned v
             | Inl msg \<Rightarrow> Returned (exception_string msg))
          else Returned (status_string code))"

definition send :: "world \<Rightarrow> request \<Rightarrow> outcome \<times> request list" where
  "send w req = (respond (http_get w req), [req])"

definition get_available_timezones :: "world \<Rightarrow> outcome \<times> request list" where
  "get_available_timezones w =
     send w \<lparr>url = ''https://api.sirocco.energy/national/timezones/'' @ API_VERSION @ ''/'',
             headers = []\<rparr>"

subsection \<open>get_my_projects\<close>

text \<open>The dictionary comprehension \<^verbatim>\<open>{p["id"]: p["name"] for p in ...}\<close>.\<close>

fun id_name_dict :: "pyval list \<Rightarrow> (pyval \<times> pyval) list \<Rightarrow> py_exn + (pyval \<times> pyval) list" where
  "id_name_dict [] acc = Inr acc"
| "id_name_dict (p # ps) acc =
     (case subscript p ''id'' of
        Inl e \<Rightarrow> Inl e
      | Inr k \<Rightarrow>
          (case subscript p ''name'' of
             Inl e \<Rightarrow> Inl e
           | Inr v \<Rightarrow>
               if hashable k then id_name_dict ps (dict_set k v acc)
               else Inl (Exn TypeError (''unhashable type: '' @ quoted (type_name k)))))"

definition projects_by_id :: "pyval \<Rightarrow> py_exn + pyval" where
  "projects_by_id my_projects =
     (case subscript my_projects ''runs'' of
        Inl e \<Rightarrow> Inl e
      | Inr runs \<Rightarrow>
          (case py_iter runs of
             Inl e \<Rightarrow> Inl e
           | Inr ps \<Rightarrow>
               (case id_name_dict ps [] of
                  Inl e \<Rightarrow> Inl e
                | Inr d \<Rightarrow> Inr (PDict d))))"

definition projects_respond :: "bool \<Rightarrow> http_result \<Rightarrow> outcome" where
  "projects_respond return_id_project r =
     (case r of
        Failed msg \<Rightarrow> Returned (exception_string msg)
      | Response code body \<Rightarrow>
          if code = 200 then
            (case body of
               Inl msg \<Rightarrow> Returned (exception_string msg)
             | Inr v \<Rightarrow>
                 if return_id_project then
                   (case subscript v ''control'' of
                      Inl e \<Rightarrow> Returned (exception_string (message e))
                    | Inr c \<Rightarrow>
                        if c = PStr ''Success'' then
                          (case projects_by_id v of
                             Inl e \<Rightarrow> Returned (exception_string (message e))
                           | Inr d \<Rightarrow> Returned d)
                        else Returned v)
                 else Returned v)
          else Returned (status_string code))"

definition projects_request :: "world \<Rightarrow> request" where
  "projects_request w =
     \<lparr>url = ''https://api.sirocco.energy/national/projects/'' @ API_VERSION @ ''/'',
      headers = auth_headers w\<rparr>"

definition get_my_projects :: "world \<Rightarrow> pyval \<Rightarrow> outcome \<times> request list" where
  "get_my_projects w return_id_project =
     (case return_id_project of
        PBool b \<Rightarrow>
          (projects_respond b (http_get w (projects_request w)), [projects_request w])
      | _ \<Rightarrow> (Raised (Exn ValueError ''Error: return_id_project must be a boolean''), []))"

subsection \<open>Operations on a run\<close>

definition endpoint_url :: "string \<Rightarrow> pyval \<Rightarrow> string \<Rightarrow> string" where
  "endpoint_url endpoint run tz =
     ''https://api.sirocco.energy/national/'' @ endpoint @ ''/'' @ API_VERSION
       @ ''/?run='' @ py_str run @ ''&timezone='' @ tz"

definition run_error :: pyval where
  "run_error = PStr ''Error: run must be an integer or a string that can be converted to an integer''"

definition init_date_error :: pyval where
  "init_date_error = PStr ''Error: init_date must be in the format YYYY-mm-dd HH:MM:SS''"

definition end_date_error :: pyval where
  "end_date_error = PStr ''Error: end_date must be in the format YYYY-mm-dd HH:MM:SS''"

text \<open>\<^verbatim>\<open>if init_date:\<close> holds for a string that is not empty.\<close>

fun supplied :: "string option \<Rightarrow> bool" where
  "supplied None = False"
| "supplied (Some s) = (s \<noteq> [])"

text \<open>\<^verbatim>\<open>url += f"&init={init_date}"\<close> under that test.\<close>

fun query_part :: "string \<Rightarrow> string option \<Rightarrow> string" where
  "query_part key None = []"
| "query_part key (Some s) = (if s \<noteq> [] then key @ s else [])"

definition get_forecasts_info :: "world \<Rightarrow> pyval \<Rightarrow> string \<Rightarrow> outcome \<times> request list" where
  "get_forecasts_info w run tz =
     send w \<lparr>url = endpoint_url ''forecast'' run tz, headers = auth_headers w\<rparr>"

text \<open>
  In \<^verbatim>\<open>get_selected_forecast\<close> and \<^verbatim>\<open>get_backtests_info\<close> the test inside the
  \<^verbatim>\<open>init_date\<close> branch parses \<^verbatim>\<open>end_date\<close>, as the source has it.
\<close>

definition get_selected_forecast ::
  "world \<Rightarrow> pyval \<Rightarrow> string \<Rightarrow> string option \<Rightarrow> string option \<Rightarrow> outcome \<times> request list" where
  "get_selected_forecast w run tz init_date end_date =
     (case py_int run of
        Inl e \<Rightarrow> if kind e = ValueError then (Returned run_error, []) else (Raised e, [])
      | Inr n \<Rightarrow>
          if supplied init_date \<and> to_datetime_raises w end_date
          then (Returned init_date_error, [])
          else if supplied end_date \<and> to_datetime_raises w end_date
          then (Returned end_date_error, [])
          else send w \<lparr>url = endpoint_url ''selectedforecast'' run tz
                               @ query_part ''&init='' init_date
                               @ query_part ''&end='' end_date,
                        headers = auth_headers w\<rparr>)"

definition get_backtests_info ::
  "world \<Rightarrow> pyval \<Rightarrow> string \<Rightarrow> string option \<Rightarrow> string option \<Rightarrow> outcome \<times> request list" where
  "get_backtests_info w run tz init_date end_date =
     (case py_int run of
        Inl e \<Rightarrow> if kind e = ValueError then (Returned run_error, []) else (Raised e, [])
      | Inr n \<Rightarrow>
          if supplied init_date \<and> to_datetime_raises w end_date
          then (Returned init_date_error, [])
          else if supplied end_date \<and> to_datetime_raises w end_date
          then (Returned end_date_error, [])
          else send w \<lparr>url = endpoint_url ''backtests'' run tz
                               @ query_part ''&init='' init_date
                               @ query_part ''&end='' end_date,
                        headers = auth_headers w\<rparr>)"

text \<open>
  One \<^verbatim>\<open>if init_ahead:\<close> block of \<^verbatim>\<open>get_selected_backtests\<close>. When the block is
  skipped the variable keeps its falsy value and nothing is appended: the result is
  \<open>(None, [])\<close>. When it runs and does not leave, the variable is rebound to the
  integer \<open>n\<close> and the result is \<open>(Some n, text)\<close> with the text appended to the URL.
\<close>

definition ahead_error :: "string \<Rightarrow> pyval" where
  "ahead_error name = PStr (''Error: '' @ name @ '' must be a positive integer'')"

definition ahead_step :: "string \<Rightarrow> pyval \<Rightarrow> outcome + (int option \<times> string)" where
  "ahead_step name v =
     (if truthy v then
        (case py_int v of
           Inl e \<Rightarrow> if kind e = ValueError then Inl (Returned (ahead_error name)) else Inl (Raised e)
         | Inr n \<Rightarrow>
             if n < 0 then Inl (Returned (ahead_error name))
             else Inr (Some n, ''&'' @ name @ ''='' @ str_of_int n))
      else Inr (None, []))"

text \<open>
  \<^verbatim>\<open>end_ahead and init_ahead and end_ahead <= init_ahead\<close> on the variables as the two
  blocks left them: a skipped variable is falsy, a rebound one is truthy when it is
  not zero.
\<close>

fun ahead_order_violated :: "int option \<Rightarrow> int option \<Rightarrow> bool" where
  "ahead_order_violated (Some e) (Some i) = (e \<noteq> 0 \<and> i \<noteq> 0 \<and> e \<le> i)"
| "ahead_order_violated e i = False"

definition get_selected_backtests ::
  "world \<Rightarrow> pyval \<Rightarrow> string option \<Rightarrow> string option \<Rightarrow> pyval \<Rightarrow> pyval \<Rightarrow> string
     \<Rightarrow> outcome \<times> request list" where
  "get_selected_backtests w run init_date end_date init_ahead end_ahead tz =
     (case py_int run of
        Inl e \<Rightarrow> if kind e = ValueError then (Returned run_error, []) else (Raised e, [])
      | Inr n \<Rightarrow>
          if supplied init_date \<and> to_datetime_raises w init_date
          then (Returned init_date_error, [])
          else if supplied end_date \<and> to_datetime_raises w end_date
          then (Returned end_date_error, [])
          else
            (case ahead_step ''init_ahead'' init_ahead of
               Inl out \<Rightarrow> (out, [])
             | Inr (init_ahead', init_text) \<Rightarrow>
                 (case ahead_step ''end_ahead'' end_ahead of
                    Inl out \<Rightarrow> (out, [])
                  | Inr (end_ahead', end_text) \<Rightarrow>
                      if ahead_order_violated end_ahead' init_ahead'
                      then (Raised (Exn ValueError
                              ''Error: end_ahead must be greater than init_ahead''), [])
                      else send w \<lparr>url = endpoint_url ''selectedbacktests'' run tz
                                           @ query_part ''&init='' init_date
                                           @ query_part ''&end='' end_date
                                           @ init_text @ end_text,
                                    headers = auth_headers w\<rparr>)))"

section \<open>The operations as one type of calls\<close>

text \<open>The public functions of the module, with their arguments, and what a call does.\<close>

datatype call =
    Timezones
  | Projects pyval
  | ForecastsInfo pyval string
  | SelectedForecast pyval string "string option" "string option"
  | BacktestsInfo pyval string "string option" "string option"
  | SelectedBacktests pyval "string option" "string option" pyval pyval string

fun perform :: "world \<Rightarrow> call \<Rightarrow> outcome \<times> request list" where
  "perform w Timezones = get_available_timezones w"
| "perform w (Projects flag) = get_my_projects w flag"
| "perform w (ForecastsInfo run tz) = get_forecasts_info w run tz"
| "perform w (SelectedForecast run tz init_date end_date) =
     get_selected_forecast w run tz init_date end_date"
| "perform w (BacktestsInfo run tz init_date end_date) =
     get_backtests_info w run tz init_date end_date"
| "perform w (SelectedBacktests run init_date end_date init_ahead end_ahead tz) =
     get_selected_backtests w run init_date end_date init_ahead end_ahead tz"

section \<open>A world for the examples\<close>

text \<open>
  In the examples every request gets the same answer, the token is taken from the
  environment, and a date is accepted when it has the shape of the format: digits where
  the format has a field, the format's own character elsewhere. The library accepts
  other strings as well; the theorems below hold for every world, and only the examples
  use this one.
\<close>

fun has_shape :: "string \<Rightarrow> string \<Rightarrow> bool" where
  "has_shape [] [] = True"
| "has_shape (p # ps) (c # cs) =
     ((if p = CHR ''d'' then is_digit c else c = p) \<and> has_shape ps cs)"
| "has_shape ps cs = False"

definition date_shape :: "string \<Rightarrow> bool" where
  "date_shape s = has_shape ''dddd-dd-dd dd:dd:dd'' s"

definition example_world :: "http_result \<Rightarrow> world" where
  "example_world r =
     \<lparr>sirocco_api_env = Some ''secret'', http_get = (\<lambda>req. r), date_ok = date_shape\<rparr>"

section \<open>The text an offset adds to the URL\<close>


section \<open>A project entry of the response\<close>


section \<open>Auxiliary facts\<close>



lemmas text_defs = str_of_int_def str_of_nat.simps digit_char_def endpoint_url_def
  API_VERSION_def auth_headers_def API_TOKEN_def

lemmas world_defs = example_world_def date_shape_def send_def respond_def
  exception_string_def status_string_def

lemma snd_send: "snd (send w req) = [req]"
  by (simp add: send_def)

lemma fst_send: "fst (send w req) = respond (http_get w req)"
  by (simp add: send_def)

lemma respond_returns: "respond r \<noteq> Raised x"
  by (simp add: respond_def split: http_result.split sum.split)

lemma fst_send_returns: "fst (send w req) \<noteq> Raised x"
  by (simp add: send_def respond_returns)

subsection \<open>The offset blocks\<close>

lemma ahead_step_leaves:
  "ahead_step name v = Inl out \<Longrightarrow> out \<noteq> Raised (Exn ValueError msg)"
  by (auto simp: ahead_step_def split: if_splits sum.splits)

lemma order_None: "ahead_order_violated x None = False"
  by (cases x) simp_all

lemma ahead_step_None: "ahead_step name PNone = Inr (None, [])"
  by (simp add: ahead_step_def)

lemma ahead_step_zero: "ahead_step name (PInt 0) = ahead_step name PNone"
  by (simp add: ahead_step_def)






subsection \<open>The request an operation sends\<close>










subsection \<open>The answer to a request\<close>

lemma respond_ok: "respond (Response 200 (Inr v)) = Returned v"
  by (simp add: respond_def)

lemma respond_status:
  "code \<noteq> 200 \<Longrightarrow> respond (Response code body)
     = Returned (PStr (''Error: Received response with status code '' @ str_of_int code))"
  by (simp add: respond_def status_string_def)

lemma respond_failed:
  "respond (Failed msg) = Returned (PStr (''Error: An exception occurred - '' @ msg))"
  by (simp add: respond_def exception_string_def)

lemma respond_malformed:
  "respond (Response 200 (Inl msg)) = Returned (PStr (''Error: An exception occurred - '' @ msg))"
  by (simp add: respond_def exception_string_def)

lemma projects_respond_False: "projects_respond False r = respond r"
  by (simp add: projects_respond_def respond_def split: http_result.split sum.split)

lemma projects_respond_not_ok:
  "(\<forall>v. r \<noteq> Response 200 (Inr v)) \<Longrightarrow> projects_respond b r = respond r"
  by (auto simp: projects_respond_def respond_def split: http_result.split sum.split)

lemma sent_by_send:
  assumes "r = send w req'" and "snd r = [req]"
  shows "fst r = respond (http_get w req)"
  using assms by (simp add: send_def)

lemma gsf_cases:
  "snd (get_selected_forecast w run tz init_date end_date) = []
   \<or> (\<exists>req'. get_selected_forecast w run tz init_date end_date = send w req')"
  by (auto simp: get_selected_forecast_def split: sum.split)

lemma gbi_cases:
  "snd (get_backtests_info w run tz init_date end_date) = []
   \<or> (\<exists>req'. get_backtests_info w run tz init_date end_date = send w req')"
  by (auto simp: get_backtests_info_def split: sum.split)

lemma gsb_cases:
  "snd (get_selected_backtests w run init_date end_date init_ahead end_ahead tz) = []
   \<or> (\<exists>req'. get_selected_backtests w run init_date end_date init_ahead end_ahead tz
         = send w req')"
  by (auto simp: get_selected_backtests_def split: sum.split prod.split)

lemma gsf_sent:
  "snd (get_selected_forecast w run tz init_date end_date) = [req]
   \<Longrightarrow> fst (get_selected_forecast w run tz init_date end_date) = respond (http_get w req)"
  using gsf_cases [of w run tz init_date end_date] by (auto intro: sent_by_send)

lemma gbi_sent:
  "snd (get_backtests_info w run tz init_date end_date) = [req]
   \<Longrightarrow> fst (get_backtests_info w run tz init_date end_date) = respond (http_get w req)"
  using gbi_cases [of w run tz init_date end_date] by (auto intro: sent_by_send)

lemma gsb_sent:
  "snd (get_selected_backtests w run init_date end_date init_ahead end_ahead tz) = [req]
   \<Longrightarrow> fst (get_selected_backtests w run init_date end_date init_ahead end_ahead tz)
         = respond (http_get w req)"
  using gsb_cases [of w run init_date end_date init_ahead end_ahead tz]
  by (auto intro: sent_by_send)

lemma projects_sent:
  assumes "snd (get_my_projects w flag) = [req]"
  shows "\<exists>b. flag = PBool b
           \<and> fst (get_my_projects w flag) = projects_respond b (http_get w req)"
proof (cases flag)
  case (PBool b)
  with assms show ?thesis
    by (simp add: get_my_projects_def)
qed (use assms in \<open>simp_all add: get_my_projects_def\<close>)

lemma perform_sent:
  assumes "snd (perform w c) = [req]"
    and "c \<noteq> Projects (PBool True) \<or> (\<forall>v. http_get w req \<noteq> Response 200 (Inr v))"
  shows "fst (perform w c) = respond (http_get w req)"
proof (cases c)
  case Timezones
  with assms(1) show ?thesis
    by (simp add: get_available_timezones_def send_def)
next
  case (Projects flag)
  with assms(1) have "snd (get_my_projects w flag) = [req]"
    by simp
  then obtain b where b: "flag = PBool b"
      "fst (get_my_projects w flag) = projects_respond b (http_get w req)"
    using projects_sent by blast
  show ?thesis
  proof (cases b)
    case True
    with b(1) Projects assms(2) have "\<forall>v. http_get w req \<noteq> Response 200 (Inr v)"
      by simp
    then have "projects_respond b (http_get w req) = respond (http_get w req)"
      by (rule projects_respond_not_ok)
    with b(2) Projects show ?thesis
      by simp
  next
    case False
    with b Projects show ?thesis
      by (simp add: projects_respond_False)
  qed
next
  case (ForecastsInfo run tz)
  with assms(1) show ?thesis
    by (simp add: get_forecasts_info_def send_def)
next
  case (SelectedForecast run tz i e)
  with assms(1) show ?thesis
    by (simp add: gsf_sent)
next
  case (BacktestsInfo run tz i e)
  with assms(1) show ?thesis
    by (simp add: gbi_sent)
next
  case (SelectedBacktests run i e ia ea tz)
  with assms(1) show ?thesis
    by (simp add: gsb_sent)
qed

subsection \<open>Dictionaries and the comprehension over the projects\<close>

lemma key_eq_refl: "key_eq k k"
  by (simp add: key_eq_def)







section \<open>Validation of the run\<close>




text \<open>
  C10, as the code has it. When \<^verbatim>\<open>int(run)\<close> raises an exception that is not a
  ValueError (a TypeError, for \<^verbatim>\<open>None\<close>, a list or a dictionary), each of the three
  operations that convert the run lets that exception through to the caller and sends
  no request.
\<close>

theorem C10_other_exception_propagates:
  assumes "py_int run = Inl e" and "kind e \<noteq> ValueError"
  shows "get_selected_forecast w run tz init_date end_date = (Raised e, [])
       \<and> get_backtests_info w run tz init_date end_date = (Raised e, [])
       \<and> get_selected_backtests w run init_date end_date init_ahead end_ahead tz
           = (Raised e, [])"
  using assms
  by (simp add: get_selected_forecast_def get_backtests_info_def get_selected_backtests_def)

theorem C10_other_exception_propagates_witness:
  "py_int (PList [PInt 1])
     = Inl (Exn TypeError
         (''int() argument must be a string, a bytes-like object or a real number, not ''
            @ quoted ''list''))
   \<and> kind (Exn TypeError
         (''int() argument must be a string, a bytes-like object or a real number, not ''
            @ quoted ''list'')) \<noteq> ValueError
   \<and> get_selected_forecast (example_world (Failed ''unreachable'')) (PList [PInt 1]) ''UTC''
        None None
       = (Raised (Exn TypeError
           (''int() argument must be a string, a bytes-like object or a real number, not ''
              @ quoted ''list'')), [])
   \<and> get_backtests_info (example_world (Failed ''unreachable'')) (PList [PInt 1]) ''UTC''
        None None
       = (Raised (Exn TypeError
           (''int() argument must be a string, a bytes-like object or a real number, not ''
              @ quoted ''list'')), [])
   \<and> get_selected_backtests (example_world (Failed ''unreachable'')) (PList [PInt 1])
        None None PNone PNone ''UTC''
       = (Raised (Exn TypeError
           (''int() argument must be a string, a bytes-like object or a real number, not ''
              @ quoted ''list'')), [])"
proof -
  have h: "py_int (PList [PInt 1])
     = Inl (Exn TypeError
         (''int() argument must be a string, a bytes-like object or a real number, not ''
            @ quoted ''list''))"
    by simp
  have k: "kind (Exn TypeError
         (''int() argument must be a string, a bytes-like object or a real number, not ''
            @ quoted ''list'')) \<noteq> ValueError"
    by simp
  from C10_other_exception_propagates [OF h k] h k show ?thesis
    by blast
qed

text \<open>
  C10 as stated covers every operation that takes a run, and \<^verbatim>\<open>get_forecasts_info\<close>
  never converts it: with the run \<^verbatim>\<open>None\<close> it raises nothing and sends a request for
  \<^verbatim>\<open>run=None\<close>.
\<close>

theorem C10_counterexample:
  "get_forecasts_info (example_world (Failed ''unreachable'')) PNone ''UTC''
     = (Returned (PStr ''Error: An exception occurred - unreachable''),
        [\<lparr>url = ''https://api.sirocco.energy/national/forecast/v1.1/?run=None&timezone=UTC'',
          headers = [(''Authorization'', ''secret'')]\<rparr>])"
  by (simp add: get_forecasts_info_def text_defs world_defs)

section \<open>The offsets of get\_selected\_backtests\<close>






text \<open>
  C9. An offset of \<^verbatim>\<open>0\<close> is treated as an absent one: \<^verbatim>\<open>get_selected_backtests\<close>
  does with \<^verbatim>\<open>init_ahead=0\<close> exactly what it does with \<^verbatim>\<open>init_ahead=None\<close>, and the
  same for \<^verbatim>\<open>end_ahead\<close>, whatever the other arguments are. In particular the order
  of the offsets is not checked then, and with both offsets \<^verbatim>\<open>0\<close> the request goes out
  with no offset in its URL.
\<close>

theorem C9_zero_offset_is_absent:
  "get_selected_backtests w run init_date end_date (PInt 0) end_ahead tz
     = get_selected_backtests w run init_date end_date PNone end_ahead tz
   \<and> get_selected_backtests w run init_date end_date init_ahead (PInt 0) tz
     = get_selected_backtests w run init_date end_date init_ahead PNone tz
   \<and> fst (get_selected_backtests w run init_date end_date (PInt 0) end_ahead tz)
     \<noteq> Raised (Exn ValueError ''Error: end_ahead must be greater than init_ahead'')
   \<and> fst (get_selected_backtests w run init_date end_date init_ahead (PInt 0) tz)
     \<noteq> Raised (Exn ValueError ''Error: end_ahead must be greater than init_ahead'')
   \<and> get_selected_backtests w (PInt 42) None None (PInt 0) (PInt 0) ''UTC''
     = send w \<lparr>url = ''https://api.sirocco.energy/national/selectedbacktests/v1.1/?run=42&timezone=UTC'',
               headers = [(''Authorization'', API_TOKEN w)]\<rparr>"
proof -
  have 1: "get_selected_backtests w run init_date end_date (PInt 0) end_ahead tz
     = get_selected_backtests w run init_date end_date PNone end_ahead tz"
    by (simp only: get_selected_backtests_def ahead_step_zero)
  have 2: "get_selected_backtests w run init_date end_date init_ahead (PInt 0) tz
     = get_selected_backtests w run init_date end_date init_ahead PNone tz"
    by (simp only: get_selected_backtests_def ahead_step_zero)
  have 3: "fst (get_selected_backtests w run init_date end_date PNone end_ahead tz)
     \<noteq> Raised (Exn ValueError ''Error: end_ahead must be greater than init_ahead'')"
    by (auto simp: get_selected_backtests_def ahead_step_None fst_send_returns
          split: sum.split prod.split dest: ahead_step_leaves)
  have 4: "fst (get_selected_backtests w run init_date end_date init_ahead PNone tz)
     \<noteq> Raised (Exn ValueError ''Error: end_ahead must be greater than init_ahead'')"
    by (auto simp: get_selected_backtests_def ahead_step_None fst_send_returns order_None
          split: sum.split prod.split dest: ahead_step_leaves)
  have 5: "get_selected_backtests w (PInt 42) None None (PInt 0) (PInt 0) ''UTC''
     = send w \<lparr>url = ''https://api.sirocco.energy/national/selectedbacktests/v1.1/?run=42&timezone=UTC'',
               headers = [(''Authorization'', API_TOKEN w)]\<rparr>"
    by (simp add: get_selected_backtests_def ahead_step_def str_of_int_def str_of_nat.simps
          digit_char_def endpoint_url_def API_VERSION_def auth_headers_def)
  from 1 2 3 4 5 show ?thesis
    by simp
qed

section \<open>The URL of the request\<close>







section \<open>The format of the dates\<close>

text \<open>
  C2 fails on the code. In \<^verbatim>\<open>get_selected_forecast\<close> and \<^verbatim>\<open>get_backtests_info\<close> the
  \<^verbatim>\<open>init_date\<close> branch parses \<^verbatim>\<open>end_date\<close>. So an \<^verbatim>\<open>init_date\<close> the parser rejects goes
  into the URL when no \<^verbatim>\<open>end_date\<close> is given, and a rejected \<^verbatim>\<open>end_date\<close> is reported
  as an error of a well-formed \<^verbatim>\<open>init_date\<close>. \<^verbatim>\<open>get_selected_backtests\<close> parses
  \<^verbatim>\<open>init_date\<close> itself and rejects it.
\<close>

theorem C2_init_date_checked_against_end_date:
  "\<not> date_ok (example_world r) ''garbage''
   \<and> get_selected_forecast (example_world r) (PInt 1) ''UTC'' (Some ''garbage'') None
     = send (example_world r)
         \<lparr>url = ''https://api.sirocco.energy/national/selectedforecast/v1.1/?run=1&timezone=UTC&init=garbage'',
          headers = [(''Authorization'', ''secret'')]\<rparr>
   \<and> get_backtests_info (example_world r) (PInt 1) ''UTC'' (Some ''garbage'') None
     = send (example_world r)
         \<lparr>url = ''https://api.sirocco.energy/national/backtests/v1.1/?run=1&timezone=UTC&init=garbage'',
          headers = [(''Authorization'', ''secret'')]\<rparr>
   \<and> get_selected_forecast (example_world r) (PInt 1) ''UTC''
        (Some ''2024-01-01 00:00:00'') (Some ''garbage'')
     = (Returned (PStr ''Error: init_date must be in the format YYYY-mm-dd HH:MM:SS''), [])
   \<and> get_selected_backtests (example_world r) (PInt 1) (Some ''garbage'') None PNone PNone ''UTC''
     = (Returned (PStr ''Error: init_date must be in the format YYYY-mm-dd HH:MM:SS''), [])"
  by (simp add: get_selected_forecast_def get_backtests_info_def get_selected_backtests_def
        init_date_error_def text_defs example_world_def date_shape_def is_digit_def)

section \<open>The answer of the service\<close>

text \<open>
  C6, as the code has it. Let a call of any operation send its request \<open>req\<close>. If the
  answer has status 200 and a body that decodes, the call returns the decoded body
  unchanged, unless it is \<^verbatim>\<open>get_my_projects\<close> with \<^verbatim>\<open>return_id_project=True\<close>. If the answer has any
  other status code, the call returns "Error: Received response with status code"
  followed by the code. If the transport raises, or the body of a 200 answer does not
  decode, the call returns "Error: An exception occurred - " followed by the text of the
  exception.
\<close>

theorem C6_response_classification:
  assumes "snd (perform w c) = [req]"
  shows "(\<forall>v. c \<noteq> Projects (PBool True) \<and> http_get w req = Response 200 (Inr v)
            \<longrightarrow> fst (perform w c) = Returned v)
       \<and> (\<forall>code body. code \<noteq> 200 \<and> http_get w req = Response code body
            \<longrightarrow> fst (perform w c)
                  = Returned (PStr (''Error: Received response with status code ''
                                     @ str_of_int code)))
       \<and> (\<forall>msg. http_get w req = Failed msg
            \<longrightarrow> fst (perform w c)
                  = Returned (PStr (''Error: An exception occurred - '' @ msg)))
       \<and> (\<forall>msg. http_get w req = Response 200 (Inl msg)
            \<longrightarrow> fst (perform w c)
                  = Returned (PStr (''Error: An exception occurred - '' @ msg)))"
proof -
  have 1: "fst (perform w c) = Returned v"
    if "c \<noteq> Projects (PBool True) \<and> http_get w req = Response 200 (Inr v)" for v
    using that perform_sent [OF assms] by (simp add: respond_ok)
  have 2: "fst (perform w c)
      = Returned (PStr (''Error: Received response with status code '' @ str_of_int code))"
    if "code \<noteq> 200 \<and> http_get w req = Response code body" for code body
    using that perform_sent [OF assms] by (simp add: respond_status)
  have 3: "fst (perform w c) = Returned (PStr (''Error: An exception occurred - '' @ msg))"
    if "http_get w req = Failed msg" for msg
    using that perform_sent [OF assms] by (simp add: respond_failed)
  have 4: "fst (perform w c) = Returned (PStr (''Error: An exception occurred - '' @ msg))"
    if "http_get w req = Response 200 (Inl msg)" for msg
    using that perform_sent [OF assms] by (simp add: respond_malformed)
  from 1 2 3 4 show ?thesis
    by blast
qed

theorem C6_response_classification_witness:
  "snd (perform (example_world (Response 404 (Inl ''Expecting value'')))
          (SelectedBacktests (PInt 42) None None (PInt 10) (PInt 30) ''UTC''))
     = [\<lparr>url = ''https://api.sirocco.energy/national/selectedbacktests/v1.1/?run=42&timezone=UTC&init_ahead=10&end_ahead=30'',
          headers = [(''Authorization'', ''secret'')]\<rparr>]
   \<and> fst (perform (example_world (Response 404 (Inl ''Expecting value'')))
          (SelectedBacktests (PInt 42) None None (PInt 10) (PInt 30) ''UTC''))
     = Returned (PStr ''Error: Received response with status code 404'')
   \<and> snd (perform (example_world (Response 200 (Inr (PList [PStr ''UTC'', PStr ''Europe/Madrid'']))))
          Timezones)
     = [\<lparr>url = ''https://api.sirocco.energy/national/timezones/v1.1/'', headers = []\<rparr>]
   \<and> fst (perform (example_world (Response 200 (Inr (PList [PStr ''UTC'', PStr ''Europe/Madrid'']))))
          Timezones)
     = Returned (PList [PStr ''UTC'', PStr ''Europe/Madrid''])
   \<and> snd (perform (example_world (Failed ''Connection refused'')) (Projects (PBool True)))
     = [\<lparr>url = ''https://api.sirocco.energy/national/projects/v1.1/'',
          headers = [(''Authorization'', ''secret'')]\<rparr>]
   \<and> fst (perform (example_world (Failed ''Connection refused'')) (Projects (PBool True)))
     = Returned (PStr ''Error: An exception occurred - Connection refused'')"
proof -
  let ?wa = "example_world (Response 404 (Inl ''Expecting value''))"
  let ?ca = "SelectedBacktests (PInt 42) None None (PInt 10) (PInt 30) ''UTC''"
  let ?ra = "\<lparr>url = ''https://api.sirocco.energy/national/selectedbacktests/v1.1/?run=42&timezone=UTC&init_ahead=10&end_ahead=30'',
          headers = [(''Authorization'', ''secret'')]\<rparr>"
  let ?wb = "example_world (Response 200 (Inr (PList [PStr ''UTC'', PStr ''Europe/Madrid''])))"
  let ?rb = "\<lparr>url = ''https://api.sirocco.energy/national/timezones/v1.1/'', headers = []\<rparr>"
  let ?wc = "example_world (Failed ''Connection refused'')"
  let ?rc = "\<lparr>url = ''https://api.sirocco.energy/national/projects/v1.1/'',
          headers = [(''Authorization'', ''secret'')]\<rparr>"
  have s1: "snd (perform ?wa ?ca) = [?ra]"
    by (simp add: get_selected_backtests_def ahead_step_def snd_send text_defs
          example_world_def)
  have s2: "snd (perform ?wb Timezones) = [?rb]"
    by (simp add: get_available_timezones_def snd_send API_VERSION_def)
  have s3: "snd (perform ?wc (Projects (PBool True))) = [?rc]"
    by (simp add: get_my_projects_def projects_request_def text_defs example_world_def)
  have g1: "http_get ?wa ?ra = Response 404 (Inl ''Expecting value'')"
    and g2: "http_get ?wb ?rb = Response 200 (Inr (PList [PStr ''UTC'', PStr ''Europe/Madrid'']))"
    and g3: "http_get ?wc ?rc = Failed ''Connection refused''"
    by (simp_all add: example_world_def)
  have t: "str_of_int 404 = ''404''"
    by (simp add: str_of_int_def str_of_nat.simps digit_char_def)
  have f1: "fst (perform ?wa ?ca) = Returned (PStr ''Error: Received response with status code 404'')"
    using C6_response_classification [OF s1] g1 by (simp add: t)
  have f2: "fst (perform ?wb Timezones) = Returned (PList [PStr ''UTC'', PStr ''Europe/Madrid''])"
    using C6_response_classification [OF s2] g2 by simp
  have f3: "fst (perform ?wc (Projects (PBool True)))
      = Returned (PStr ''Error: An exception occurred - Connection refused'')"
    using C6_response_classification [OF s3] g3 by simp
  from s1 f1 s2 f2 s3 f3 show ?thesis
    by blast
qed

text \<open>
  C6 as stated covers \<^verbatim>\<open>get_my_projects\<close> too, and with \<^verbatim>\<open>return_id_project=True\<close> a
  200 answer whose \<^verbatim>\<open>"control"\<close> is \<^verbatim>\<open>"Success"\<close> is not returned unchanged: the call
  returns the dictionary from id to name.
\<close>

theorem C6_counterexample:
  "get_my_projects
     (example_world (Response 200 (Inr (PDict
        [(PStr ''control'', PStr ''Success''),
         (PStr ''runs'', PList [PDict [(PStr ''id'', PInt 3), (PStr ''name'', PStr ''Coast'')]])]))))
     (PBool True)
   = (Returned (PDict [(PInt 3, PStr ''Coast'')]),
      [\<lparr>url = ''https://api.sirocco.energy/national/projects/v1.1/'',
        headers = [(''Authorization'', ''secret'')]\<rparr>])"
  by (simp add: get_my_projects_def projects_respond_def projects_by_id_def projects_request_def
        key_eq_def text_defs example_world_def)

section \<open>The projects of the caller\<close>



end
